theory Spec2Isabelle
  imports Complex_Main
begin

section \<open>Values of the host language\<close>

text \<open>
  The embedding follows \<^verbatim>\<open>src/ecs-deployment/index.ts\<close>. A value that travels in the
  request property bag is a string or \<^verbatim>\<open>undefined\<close> (an optional property that
  was not supplied). An object literal is an association list in the order in which
  the literal writes its keys.
\<close>

datatype js_value = JsString string | JsUndefined

type_synonym property_bag = "(string \<times> js_value) list"

text \<open>\<^verbatim>\<open>Array.prototype.push\<close>: the element goes to the end.\<close>

definition push :: "'a list \<Rightarrow> 'a \<Rightarrow> 'a list" where
  "push arr x = arr @ [x]"

text \<open>\<^verbatim>\<open>Array.prototype.join(sep)\<close> on an array of strings.\<close>

fun join_array :: "string list \<Rightarrow> string \<Rightarrow> string" where
  "join_array [] sep = []"
| "join_array [x] sep = x"
| "join_array (x # y # ys) sep = x @ sep @ join_array (y # ys) sep"

text \<open>
  \<^verbatim>\<open>String.prototype.split(sep)\<close> for a separator of one character: the reader's side
  of the comma-joined string. The empty string splits into one empty field.
\<close>

fun split_on :: "char \<Rightarrow> string \<Rightarrow> string list" where
  "split_on c [] = [[]]"
| "split_on c (x # xs) =
     (if x = c then [] # split_on c xs
      else (case split_on c xs of
              [] \<Rightarrow> [[x]]
            | w # ws \<Rightarrow> (x # w) # ws))"

text \<open>\<^verbatim>\<open>Boolean.prototype.toString\<close>.\<close>

definition boolean_toString :: "bool \<Rightarrow> string" where
  "boolean_toString b = (if b then ''true'' else ''false'')"

text \<open>
  Truthiness of a value of type \<^verbatim>\<open>boolean | undefined\<close>, as an \<^verbatim>\<open>if\<close> tests it:
  \<^verbatim>\<open>undefined\<close> and \<^verbatim>\<open>false\<close> are falsy.
\<close>

definition truthy :: "bool option \<Rightarrow> bool" where
  "truthy v = (case v of None \<Rightarrow> False | Some b \<Rightarrow> b)"

text \<open>Optional chaining \<^verbatim>\<open>a?.f\<close> on an optional object with an optional field.\<close>

definition optional_chain :: "'a option \<Rightarrow> ('a \<Rightarrow> 'b option) \<Rightarrow> 'b option" where
  "optional_chain a f = (case a of None \<Rightarrow> None | Some obj \<Rightarrow> f obj)"

text \<open>
  \<^verbatim>\<open>a || b\<close> where \<^verbatim>\<open>a\<close> is an object or \<^verbatim>\<open>undefined\<close>: every object is truthy,
  so only \<^verbatim>\<open>undefined\<close> selects \<^verbatim>\<open>b\<close>.
\<close>

definition object_or :: "'a option \<Rightarrow> 'a \<Rightarrow> 'a" where
  "object_or a b = (case a of None \<Rightarrow> b | Some obj \<Rightarrow> obj)"

section \<open>The framework's types\<close>

text \<open>
  \<^verbatim>\<open>cdk.Duration\<close>: an amount and a unit. \<^verbatim>\<open>Duration.minutes(n)\<close> builds the
  object; nothing in the source reads it back.
\<close>

datatype TimeUnit = Milliseconds | Seconds | Minutes | Hours | Days

datatype Duration = Duration (amount: rat) (time_unit: TimeUnit)

definition Duration_minutes :: "rat \<Rightarrow> Duration" where
  "Duration_minutes n = Duration n Minutes"

text \<open>
  A construct is identified by its path in the construct tree: the identifiers from
  the root down to it.
\<close>

type_synonym construct_path = "string list"

record IEcsApplication =
  applicationName :: string

record IEcsDeploymentConfig =
  deploymentConfigName :: string

record IEcsDeploymentGroup =
  node_path :: construct_path
  application :: IEcsApplication
  deploymentConfig :: IEcsDeploymentConfig
  deploymentGroupName :: string

text \<open>\<^verbatim>\<open>codedeploy.AutoRollbackConfig\<close>: three optional booleans.\<close>

record AutoRollbackConfig =
  failedDeployment :: "bool option"
  stoppedDeployment :: "bool option"
  deploymentInAlarm :: "bool option"

text \<open>
  Modelled from the spec: the class \<^verbatim>\<open>EcsAppSpec\<close> of \<^verbatim>\<open>../ecs-appspec\<close> is not
  among the sources. The spec says that the AppSpec model exposes a method producing
  a serialized string; an AppSpec is represented by the string its \<^verbatim>\<open>toString()\<close>
  returns.
\<close>

datatype EcsAppSpec = EcsAppSpec (toString: string)

record EcsDeploymentProps =
  deploymentGroup :: IEcsDeploymentGroup
  appspec :: EcsAppSpec
  autoRollback :: "AutoRollbackConfig option"
  description :: "string option"
  timeout :: "Duration option"

text \<open>
  A value known only after deployment: the service token of a provider, or an
  attribute of a registered resource.
\<close>

datatype reference = ServiceTokenOf construct_path | GetAtt construct_path string

record EcsDeploymentProviderProps =
  provider_deploymentGroup :: IEcsDeploymentGroup
  provider_timeout :: Duration

record EcsDeploymentProvider =
  provider_path :: construct_path
  provider_props :: EcsDeploymentProviderProps
  serviceToken :: reference

record CustomResourceProps =
  resource_serviceToken :: reference
  resourceType :: string
  properties :: property_bag

record CustomResource =
  resource_path :: construct_path
  resource_props :: CustomResourceProps

record EcsDeployment =
  deployment_path :: construct_path
  deploymentId :: reference

section \<open>The construct tree\<close>

text \<open>
  The state that construction changes: for every construct the identifiers of its
  children, the providers created so far and the custom resources registered so far.
\<close>

record app =
  children :: "construct_path \<Rightarrow> string list"
  providers :: "EcsDeploymentProvider list"
  resources :: "CustomResource list"

datatype error = DuplicateConstructName construct_path string

text \<open>
  Modelled from the spec: the constructor of \<^verbatim>\<open>Construct\<close> (the \<^verbatim>\<open>super(scope, id)\<close>
  call) belongs to the framework and is not among the sources. The spec and the doc
  comment of the class say that a second child with the same identifier under one
  parent is rejected as a duplicate. A new construct is added to its parent's
  children and starts with no children; the exception leaves the tree as it was.
\<close>

definition Construct_new :: "app \<Rightarrow> construct_path \<Rightarrow> string \<Rightarrow> app \<times> (error + construct_path)" where
  "Construct_new st scope id' =
     (if id' \<in> set (children st scope)
      then (st, Inl (DuplicateConstructName scope id'))
      else (st\<lparr>children := (children st)
                  (scope := push (children st scope) id', scope @ [id'] := [])\<rparr>,
            Inr (scope @ [id'])))"

text \<open>
  Modelled from the spec: the class \<^verbatim>\<open>EcsDeploymentProvider\<close> of
  \<^verbatim>\<open>../ecs-deployment-provider\<close> is not among the sources. The spec says that the
  factory, given a deployment-group reference and a timeout, returns a provider
  instance exposing a service token. The provider is a construct; its own
  infrastructure is left out.
\<close>

definition EcsDeploymentProvider_new ::
  "app \<Rightarrow> construct_path \<Rightarrow> string \<Rightarrow> EcsDeploymentProviderProps
     \<Rightarrow> app \<times> (error + EcsDeploymentProvider)" where
  "EcsDeploymentProvider_new st scope id' props =
     (case Construct_new st scope id' of
        (st1, Inl e) \<Rightarrow> (st1, Inl e)
      | (st1, Inr this) \<Rightarrow>
          (let provider = \<lparr>provider_path = this, provider_props = props,
                           serviceToken = ServiceTokenOf this\<rparr>
           in (st1\<lparr>providers := push (providers st1) provider\<rparr>, Inr provider)))"

text \<open>
  Modelled from the spec: \<^verbatim>\<open>cdk.CustomResource\<close> belongs to the framework. The spec
  says that registration, given a service token, a resource-type tag and a property
  bag, registers the resource and returns a handle supporting attribute lookup.
\<close>

definition CustomResource_new ::
  "app \<Rightarrow> construct_path \<Rightarrow> string \<Rightarrow> CustomResourceProps
     \<Rightarrow> app \<times> (error + CustomResource)" where
  "CustomResource_new st scope id' props =
     (case Construct_new st scope id' of
        (st1, Inl e) \<Rightarrow> (st1, Inl e)
      | (st1, Inr this) \<Rightarrow>
          (let resource = \<lparr>resource_path = this, resource_props = props\<rparr>
           in (st1\<lparr>resources := push (resources st1) resource\<rparr>, Inr resource)))"

definition getAttString :: "CustomResource \<Rightarrow> string \<Rightarrow> reference" where
  "getAttString resource attributeName = GetAtt (resource_path resource) attributeName"

section \<open>EcsDeployment\<close>

text \<open>Lines 75 to 84: the trigger events, tested and pushed in the order of the source.\<close>

definition autoRollbackConfigurationEvents :: "EcsDeploymentProps \<Rightarrow> string list" where
  "autoRollbackConfigurationEvents props =
     (let events = [];
          events = (if truthy (optional_chain (autoRollback props) deploymentInAlarm)
                    then push events ''DEPLOYMENT_STOP_ON_ALARM'' else events);
          events = (if truthy (optional_chain (autoRollback props) failedDeployment)
                    then push events ''DEPLOYMENT_FAILURE'' else events);
          events = (if truthy (optional_chain (autoRollback props) stoppedDeployment)
                    then push events ''DEPLOYMENT_STOP_ON_REQUEST'' else events)
      in events)"

text \<open>Lines 89 to 97: the object literal handed over as \<^verbatim>\<open>properties\<close>.\<close>

definition deployment_properties :: "EcsDeploymentProps \<Rightarrow> property_bag" where
  "deployment_properties props =
     [(''applicationName'',
         JsString (applicationName (application (deploymentGroup props)))),
      (''deploymentConfigName'',
         JsString (deploymentConfigName (deploymentConfig (deploymentGroup props)))),
      (''deploymentGroupName'',
         JsString (deploymentGroupName (deploymentGroup props))),
      (''autoRollbackConfigurationEnabled'',
         JsString (boolean_toString (length (autoRollbackConfigurationEvents props) > 0))),
      (''autoRollbackConfigurationEvents'',
         JsString (join_array (autoRollbackConfigurationEvents props) '','')),
      (''description'',
         (case description props of None \<Rightarrow> JsUndefined | Some d \<Rightarrow> JsString d)),
      (''revisionAppSpecContent'',
         JsString (toString (appspec props)))]"

text \<open>Lines 70 to 73: the properties given to the provider.\<close>

definition deployment_provider_props :: "EcsDeploymentProps \<Rightarrow> EcsDeploymentProviderProps" where
  "deployment_provider_props props =
     \<lparr>provider_deploymentGroup = deploymentGroup props,
      provider_timeout = object_or (timeout props) (Duration_minutes 30)\<rparr>"

text \<open>
  The constructor, lines 67 to 100. An exception of a callee ends the constructor
  where it is thrown.
\<close>

definition EcsDeployment_new ::
  "app \<Rightarrow> construct_path \<Rightarrow> string \<Rightarrow> EcsDeploymentProps \<Rightarrow> app \<times> (error + EcsDeployment)" where
  "EcsDeployment_new st scope id' props =
     (case Construct_new st scope id' of
        (st1, Inl e) \<Rightarrow> (st1, Inl e)
      | (st1, Inr this) \<Rightarrow>
          (case EcsDeploymentProvider_new st1 this ''DeploymentProvider''
                  (deployment_provider_props props) of
             (st2, Inl e) \<Rightarrow> (st2, Inl e)
           | (st2, Inr ecsDeploymentProvider) \<Rightarrow>
               (case CustomResource_new st2 this ''DeploymentResource''
                       \<lparr>resource_serviceToken = serviceToken ecsDeploymentProvider,
                        resourceType = ''Custom::EcsDeployment'',
                        properties = deployment_properties props\<rparr> of
                  (st3, Inl e) \<Rightarrow> (st3, Inl e)
                | (st3, Inr deployment) \<Rightarrow>
                    (st3, Inr \<lparr>deployment_path = this,
                               deploymentId = getAttString deployment ''deploymentId''\<rparr>))))"

text \<open>Lines 58 to 60: the only public way to construct.\<close>

definition forDeploymentGroup :: "app \<Rightarrow> EcsDeploymentProps \<Rightarrow> app \<times> (error + EcsDeployment)" where
  "forDeploymentGroup st props =
     EcsDeployment_new st (node_path (deploymentGroup props)) ''Deployment'' props"

section \<open>Example inputs\<close>

definition group1 :: IEcsDeploymentGroup where
  "group1 = \<lparr>node_path = [''Stack'', ''Group''],
             application = \<lparr>applicationName = ''app1''\<rparr>,
             deploymentConfig = \<lparr>deploymentConfigName = ''cfg1''\<rparr>,
             deploymentGroupName = ''grp1''\<rparr>"

definition props1 :: EcsDeploymentProps where
  "props1 = \<lparr>deploymentGroup = group1, appspec = EcsAppSpec ''spec-content'',
             autoRollback = None, description = None, timeout = None\<rparr>"

definition rollback_config :: "bool \<Rightarrow> bool \<Rightarrow> bool \<Rightarrow> AutoRollbackConfig" where
  "rollback_config alarm failure stopped =
     \<lparr>failedDeployment = Some failure, stoppedDeployment = Some stopped,
      deploymentInAlarm = Some alarm\<rparr>"

text \<open>A tree in which the deployment group exists and has no children yet.\<close>

definition app0 :: app where
  "app0 = \<lparr>children = (\<lambda>p. []), providers = [], resources = []\<rparr>"

definition props_described :: EcsDeploymentProps where
  "props_described = props1\<lparr>description := Some ''first release''\<rparr>"

definition props_other_group :: EcsDeploymentProps where
  "props_other_group = props1\<lparr>deploymentGroup := group1\<lparr>node_path := [''Stack'', ''OtherGroup'']\<rparr>\<rparr>"

definition props_alarm_stopped :: EcsDeploymentProps where
  "props_alarm_stopped = props1\<lparr>autoRollback := Some (rollback_config True False True)\<rparr>"

definition zero_timeout_props :: EcsDeploymentProps where
  "zero_timeout_props = props1\<lparr>timeout := Some (Duration 0 Seconds)\<rparr>"

section \<open>Lemmas on the request property bag\<close>

lemma truthy_Some_True: "truthy v = (v = Some True)"
  by (cases v) (simp_all add: truthy_def)

lemma events_append:
  "autoRollbackConfigurationEvents props =
     (if truthy (optional_chain (autoRollback props) deploymentInAlarm) then [''DEPLOYMENT_STOP_ON_ALARM''] else []) @
     (if truthy (optional_chain (autoRollback props) failedDeployment) then [''DEPLOYMENT_FAILURE''] else []) @
     (if truthy (optional_chain (autoRollback props) stoppedDeployment) then [''DEPLOYMENT_STOP_ON_REQUEST''] else [])"
  by (simp add: autoRollbackConfigurationEvents_def push_def Let_def)

lemma events_of_config:
  "autoRollbackConfigurationEvents
       (props\<lparr>autoRollback := Some \<lparr>failedDeployment = f, stoppedDeployment = s,
                                     deploymentInAlarm = a\<rparr>\<rparr>) =
     (if a = Some True then [''DEPLOYMENT_STOP_ON_ALARM''] else []) @
     (if f = Some True then [''DEPLOYMENT_FAILURE''] else []) @
     (if s = Some True then [''DEPLOYMENT_STOP_ON_REQUEST''] else [])"
  by (simp add: events_append optional_chain_def truthy_Some_True)

lemma events_length:
  "length (autoRollbackConfigurationEvents props) =
     length (filter truthy
       [optional_chain (autoRollback props) deploymentInAlarm,
        optional_chain (autoRollback props) failedDeployment,
        optional_chain (autoRollback props) stoppedDeployment])"
  by (simp add: events_append)

lemma events_comma_free:
  "\<forall>t \<in> set (autoRollbackConfigurationEvents props). CHR '','' \<notin> set t"
  by (auto simp add: events_append)

lemma events_string_lookup:
  "map_of (deployment_properties props) ''autoRollbackConfigurationEvents'' =
     Some (JsString (join_array (autoRollbackConfigurationEvents props) '',''))"
  by (simp add: deployment_properties_def)

lemma enabled_lookup:
  "map_of (deployment_properties props) ''autoRollbackConfigurationEnabled'' =
     Some (JsString (boolean_toString (length (autoRollbackConfigurationEvents props) > 0)))"
  by (simp add: deployment_properties_def)

lemma events_string_of_config:
  "map_of (deployment_properties (props\<lparr>autoRollback := Some (rollback_config a f s)\<rparr>))
       ''autoRollbackConfigurationEvents'' =
     Some (JsString (join_array
       ((if a then [''DEPLOYMENT_STOP_ON_ALARM''] else []) @
        (if f then [''DEPLOYMENT_FAILURE''] else []) @
        (if s then [''DEPLOYMENT_STOP_ON_REQUEST''] else [])) '',''))"
  by (simp only: events_string_lookup rollback_config_def events_of_config) simp

section \<open>Lemmas on construction in the construct tree\<close>

lemma Construct_new_fresh:
  "id' \<notin> set (children st scope) \<Longrightarrow>
   Construct_new st scope id' =
     (st\<lparr>children := (children st)(scope := children st scope @ [id'], scope @ [id'] := [])\<rparr>,
      Inr (scope @ [id']))"
  by (simp add: Construct_new_def push_def)

lemma Construct_new_duplicate:
  "id' \<in> set (children st scope) \<Longrightarrow>
   Construct_new st scope id' = (st, Inl (DuplicateConstructName scope id'))"
  by (simp add: Construct_new_def)

lemma forDeploymentGroup_fresh:
  assumes "''Deployment'' \<notin> set (children st (node_path (deploymentGroup props)))"
  shows "\<exists>st'. forDeploymentGroup st props =
     (st', Inr \<lparr>deployment_path = node_path (deploymentGroup props) @ [''Deployment''],
              deploymentId = GetAtt (node_path (deploymentGroup props) @ [''Deployment'', ''DeploymentResource'']) ''deploymentId''\<rparr>)
   \<and> providers st' = providers st @
        [\<lparr>provider_path = node_path (deploymentGroup props) @ [''Deployment'', ''DeploymentProvider''],
          provider_props = deployment_provider_props props,
          serviceToken = ServiceTokenOf (node_path (deploymentGroup props) @ [''Deployment'', ''DeploymentProvider''])\<rparr>]
   \<and> resources st' = resources st @
        [\<lparr>resource_path = node_path (deploymentGroup props) @ [''Deployment'', ''DeploymentResource''],
          resource_props = \<lparr>resource_serviceToken = ServiceTokenOf (node_path (deploymentGroup props) @ [''Deployment'', ''DeploymentProvider'']),
             resourceType = ''Custom::EcsDeployment'',
             properties = deployment_properties props\<rparr>\<rparr>]
   \<and> children st' (node_path (deploymentGroup props)) = children st (node_path (deploymentGroup props)) @ [''Deployment'']"
  using assms
  by (simp add: forDeploymentGroup_def EcsDeployment_new_def EcsDeploymentProvider_new_def
      CustomResource_new_def Construct_new_def push_def getAttString_def Let_def)

lemma forDeploymentGroup_duplicate:
  assumes "''Deployment'' \<in> set (children st (node_path (deploymentGroup props)))"
  shows "forDeploymentGroup st props =
     (st, Inl (DuplicateConstructName (node_path (deploymentGroup props)) ''Deployment''))"
  using assms
  by (simp add: forDeploymentGroup_def EcsDeployment_new_def Construct_new_def)

lemma forDeploymentGroup_child:
  "''Deployment'' \<in> set (children (fst (forDeploymentGroup st props)) (node_path (deploymentGroup props)))"
proof (cases "''Deployment'' \<in> set (children st (node_path (deploymentGroup props)))")
  case True
  then show ?thesis by (simp add: forDeploymentGroup_duplicate)
next
  case False
  from forDeploymentGroup_fresh [OF False] show ?thesis by auto
qed

section \<open>Lemmas on joining and splitting\<close>

lemma split_on_not_Nil: "split_on c s \<noteq> []"
  by (induction s) (auto split: list.splits)

lemma split_on_no_separator: "c \<notin> set w \<Longrightarrow> split_on c w = [w]"
  by (induction w) auto

lemma split_on_field: "c \<notin> set w \<Longrightarrow> split_on c (w @ c # rest) = w # split_on c rest"
  by (induction w) auto

lemma split_on_join_array:
  "ws \<noteq> [] \<Longrightarrow> \<forall>w \<in> set ws. c \<notin> set w \<Longrightarrow> split_on c (join_array ws [c]) = ws"
proof (induction ws "[c]" rule: join_array.induct)
  case 1
  then show ?case by simp
next
  case (2 x)
  then show ?case by (simp add: split_on_no_separator)
next
  case (3 x y ys)
  then show ?case by (simp add: split_on_field)
qed

section \<open>The trigger events and the enabled flag\<close>

text \<open>
  C1. For each of the eight combinations of the three rollback booleans the string
  under \<^verbatim>\<open>autoRollbackConfigurationEvents\<close> is the comma-join of the tokens of the
  true booleans, in the order alarm, failure, stopped; the sequence itself is the
  concatenation, in that order, of the tokens whose boolean is true (an undefined
  boolean counts as false). Alarm and stopped alone give
  \<^verbatim>\<open>DEPLOYMENT_STOP_ON_ALARM,DEPLOYMENT_STOP_ON_REQUEST\<close>.
\<close>

theorem trigger_events_string:
  "autoRollbackConfigurationEvents
       (props\<lparr>autoRollback := Some \<lparr>failedDeployment = f, stoppedDeployment = s,
                                     deploymentInAlarm = a\<rparr>\<rparr>) =
     (if a = Some True then [''DEPLOYMENT_STOP_ON_ALARM''] else []) @
     (if f = Some True then [''DEPLOYMENT_FAILURE''] else []) @
     (if s = Some True then [''DEPLOYMENT_STOP_ON_REQUEST''] else [])
   \<and> map_of (deployment_properties
         (props\<lparr>autoRollback := Some \<lparr>failedDeployment = f, stoppedDeployment = s,
                                       deploymentInAlarm = a\<rparr>\<rparr>))
       ''autoRollbackConfigurationEvents'' =
     Some (JsString (join_array
       ((if a = Some True then [''DEPLOYMENT_STOP_ON_ALARM''] else []) @
        (if f = Some True then [''DEPLOYMENT_FAILURE''] else []) @
        (if s = Some True then [''DEPLOYMENT_STOP_ON_REQUEST''] else [])) '',''))
   \<and> map_of (deployment_properties (props\<lparr>autoRollback := Some (rollback_config False False False)\<rparr>))
       ''autoRollbackConfigurationEvents'' = Some (JsString [])
   \<and> map_of (deployment_properties (props\<lparr>autoRollback := Some (rollback_config True False False)\<rparr>))
       ''autoRollbackConfigurationEvents'' = Some (JsString ''DEPLOYMENT_STOP_ON_ALARM'')
   \<and> map_of (deployment_properties (props\<lparr>autoRollback := Some (rollback_config False True False)\<rparr>))
       ''autoRollbackConfigurationEvents'' = Some (JsString ''DEPLOYMENT_FAILURE'')
   \<and> map_of (deployment_properties (props\<lparr>autoRollback := Some (rollback_config False False True)\<rparr>))
       ''autoRollbackConfigurationEvents'' = Some (JsString ''DEPLOYMENT_STOP_ON_REQUEST'')
   \<and> map_of (deployment_properties (props\<lparr>autoRollback := Some (rollback_config True True False)\<rparr>))
       ''autoRollbackConfigurationEvents'' =
       Some (JsString ''DEPLOYMENT_STOP_ON_ALARM,DEPLOYMENT_FAILURE'')
   \<and> map_of (deployment_properties (props\<lparr>autoRollback := Some (rollback_config True False True)\<rparr>))
       ''autoRollbackConfigurationEvents'' =
       Some (JsString ''DEPLOYMENT_STOP_ON_ALARM,DEPLOYMENT_STOP_ON_REQUEST'')
   \<and> map_of (deployment_properties (props\<lparr>autoRollback := Some (rollback_config False True True)\<rparr>))
       ''autoRollbackConfigurationEvents'' =
       Some (JsString ''DEPLOYMENT_FAILURE,DEPLOYMENT_STOP_ON_REQUEST'')
   \<and> map_of (deployment_properties (props\<lparr>autoRollback := Some (rollback_config True True True)\<rparr>))
       ''autoRollbackConfigurationEvents'' =
       Some (JsString ''DEPLOYMENT_STOP_ON_ALARM,DEPLOYMENT_FAILURE,DEPLOYMENT_STOP_ON_REQUEST'')"
proof -
  have general: "map_of (deployment_properties
         (props\<lparr>autoRollback := Some \<lparr>failedDeployment = f, stoppedDeployment = s,
                                       deploymentInAlarm = a\<rparr>\<rparr>))
       ''autoRollbackConfigurationEvents'' =
     Some (JsString (join_array
       ((if a = Some True then [''DEPLOYMENT_STOP_ON_ALARM''] else []) @
        (if f = Some True then [''DEPLOYMENT_FAILURE''] else []) @
        (if s = Some True then [''DEPLOYMENT_STOP_ON_REQUEST''] else [])) '',''))"
    by (simp only: events_string_lookup events_of_config)
  show ?thesis
    by (simp only: general events_of_config events_string_of_config) simp
qed

text \<open>
  C2. The value under \<^verbatim>\<open>autoRollbackConfigurationEnabled\<close> is the string
  \<^verbatim>\<open>true\<close> when the derived sequence of trigger events is not empty and the string
  \<^verbatim>\<open>false\<close> when it is empty; the sequence is not empty exactly when a rollback
  configuration is supplied and at least one of its three booleans is true.
\<close>

theorem enabled_iff_events_nonempty:
  "map_of (deployment_properties props) ''autoRollbackConfigurationEnabled'' =
     Some (JsString (if autoRollbackConfigurationEvents props = [] then ''false'' else ''true''))
   \<and> (autoRollbackConfigurationEvents props \<noteq> []) =
       (\<exists>c. autoRollback props = Some c \<and>
            (deploymentInAlarm c = Some True \<or> failedDeployment c = Some True \<or>
             stoppedDeployment c = Some True))"
proof -
  have "(autoRollbackConfigurationEvents props \<noteq> []) =
       (\<exists>c. autoRollback props = Some c \<and>
            (deploymentInAlarm c = Some True \<or> failedDeployment c = Some True \<or>
             stoppedDeployment c = Some True))"
    by (cases "autoRollback props")
       (auto simp add: events_append optional_chain_def truthy_Some_True)
  moreover have "map_of (deployment_properties props) ''autoRollbackConfigurationEnabled'' =
     Some (JsString (if autoRollbackConfigurationEvents props = [] then ''false'' else ''true''))"
    by (simp add: enabled_lookup boolean_toString_def)
  ultimately show ?thesis by blast
qed

text \<open>
  C6. A configuration without \<^verbatim>\<open>autoRollback\<close> and one whose three booleans are
  all false give the same property bag; in both the events string is empty and the
  enabled flag is \<^verbatim>\<open>false\<close>.
\<close>

theorem absent_rollback_is_all_false:
  "deployment_properties (props\<lparr>autoRollback := None\<rparr>) =
     deployment_properties (props\<lparr>autoRollback := Some (rollback_config False False False)\<rparr>)
   \<and> map_of (deployment_properties (props\<lparr>autoRollback := None\<rparr>))
         ''autoRollbackConfigurationEvents'' = Some (JsString [])
   \<and> map_of (deployment_properties (props\<lparr>autoRollback := None\<rparr>))
         ''autoRollbackConfigurationEnabled'' = Some (JsString ''false'')
   \<and> map_of (deployment_properties (props\<lparr>autoRollback := Some (rollback_config False False False)\<rparr>))
         ''autoRollbackConfigurationEvents'' = Some (JsString [])
   \<and> map_of (deployment_properties (props\<lparr>autoRollback := Some (rollback_config False False False)\<rparr>))
         ''autoRollbackConfigurationEnabled'' = Some (JsString ''false'')"
proof -
  have n: "autoRollbackConfigurationEvents (props\<lparr>autoRollback := None\<rparr>) = []"
    by (simp add: events_append optional_chain_def truthy_def)
  have f: "autoRollbackConfigurationEvents
       (props\<lparr>autoRollback := Some (rollback_config False False False)\<rparr>) = []"
    by (simp add: events_append optional_chain_def truthy_def rollback_config_def)
  have "deployment_properties (props\<lparr>autoRollback := None\<rparr>) =
     deployment_properties (props\<lparr>autoRollback := Some (rollback_config False False False)\<rparr>)"
    by (simp add: deployment_properties_def n f)
  then show ?thesis
    by (simp add: events_string_lookup enabled_lookup n f boolean_toString_def)
qed

text \<open>
  C10. None of the three tokens contains a comma. When the derived sequence is not
  empty, splitting the string under \<^verbatim>\<open>autoRollbackConfigurationEvents\<close> at the
  commas gives back the sequence, and the number of fields is the number of rollback
  booleans that are true.
\<close>

theorem trigger_events_split_roundtrip:
  assumes "autoRollbackConfigurationEvents props \<noteq> []"
  shows "CHR '','' \<notin> set ''DEPLOYMENT_STOP_ON_ALARM''
       \<and> CHR '','' \<notin> set ''DEPLOYMENT_FAILURE''
       \<and> CHR '','' \<notin> set ''DEPLOYMENT_STOP_ON_REQUEST''
       \<and> (\<exists>s. map_of (deployment_properties props) ''autoRollbackConfigurationEvents'' =
                 Some (JsString s)
              \<and> split_on CHR '','' s = autoRollbackConfigurationEvents props
              \<and> length (split_on CHR '','' s) =
                  length (filter truthy
                    [optional_chain (autoRollback props) deploymentInAlarm,
                     optional_chain (autoRollback props) failedDeployment,
                     optional_chain (autoRollback props) stoppedDeployment]))"
proof -
  from split_on_join_array [OF assms events_comma_free]
  have r: "split_on CHR '','' (join_array (autoRollbackConfigurationEvents props) '','') =
      autoRollbackConfigurationEvents props" .
  have "map_of (deployment_properties props) ''autoRollbackConfigurationEvents'' =
      Some (JsString (join_array (autoRollbackConfigurationEvents props) '',''))"
    by (rule events_string_lookup)
  with r events_length [of props] show ?thesis
    by simp
qed

theorem trigger_events_split_roundtrip_witness:
  "autoRollbackConfigurationEvents props_alarm_stopped \<noteq> []
   \<and> map_of (deployment_properties props_alarm_stopped) ''autoRollbackConfigurationEvents'' =
       Some (JsString ''DEPLOYMENT_STOP_ON_ALARM,DEPLOYMENT_STOP_ON_REQUEST'')
   \<and> split_on CHR '','' ''DEPLOYMENT_STOP_ON_ALARM,DEPLOYMENT_STOP_ON_REQUEST'' =
       [''DEPLOYMENT_STOP_ON_ALARM'', ''DEPLOYMENT_STOP_ON_REQUEST'']
   \<and> length (split_on CHR '','' ''DEPLOYMENT_STOP_ON_ALARM,DEPLOYMENT_STOP_ON_REQUEST'') = 2"
proof -
  have e: "autoRollbackConfigurationEvents props_alarm_stopped =
      [''DEPLOYMENT_STOP_ON_ALARM'', ''DEPLOYMENT_STOP_ON_REQUEST'']"
    by (simp add: events_append props_alarm_stopped_def props1_def rollback_config_def
        optional_chain_def truthy_def)
  then have n: "autoRollbackConfigurationEvents props_alarm_stopped \<noteq> []"
    by simp
  have j: "map_of (deployment_properties props_alarm_stopped) ''autoRollbackConfigurationEvents'' =
       Some (JsString ''DEPLOYMENT_STOP_ON_ALARM,DEPLOYMENT_STOP_ON_REQUEST'')"
    by (simp add: events_string_lookup e)
  from trigger_events_split_roundtrip [OF n] j e n show ?thesis
    by auto
qed

text \<open>
  The empty sequence is left out above for a reason: its join is the empty string,
  which splits into one empty field.
\<close>

lemma split_on_empty_string: "split_on CHR '','' (join_array [] '','') = [[]]"
  by simp

section \<open>The property bag\<close>

text \<open>
  C3, as stated, speaks of six keys. The object literal of lines 89 to 97 writes
  seven; with a description supplied every one of them carries a string.
\<close>

theorem property_bag_six_keys_counterexample:
  "card (set (map fst (deployment_properties props_described))) \<noteq> 6"
  by (simp add: deployment_properties_def props_described_def props1_def card_insert_if)

text \<open>
  C3, amended. For every input configuration the property bag handed to the
  registration of the custom resource has exactly the seven keys
  \<^verbatim>\<open>applicationName\<close>, \<^verbatim>\<open>deploymentConfigName\<close>, \<^verbatim>\<open>deploymentGroupName\<close>,
  \<^verbatim>\<open>autoRollbackConfigurationEnabled\<close>, \<^verbatim>\<open>autoRollbackConfigurationEvents\<close>,
  \<^verbatim>\<open>description\<close> and \<^verbatim>\<open>revisionAppSpecContent\<close>, and the first three values
  are the corresponding fields read from the deployment-group reference.
\<close>

theorem property_bag_seven_keys:
  "map fst (deployment_properties props) =
     [''applicationName'', ''deploymentConfigName'', ''deploymentGroupName'',
      ''autoRollbackConfigurationEnabled'', ''autoRollbackConfigurationEvents'',
      ''description'', ''revisionAppSpecContent'']
   \<and> card (set (map fst (deployment_properties props))) = 7
   \<and> map_of (deployment_properties props) ''applicationName'' =
       Some (JsString (applicationName (application (deploymentGroup props))))
   \<and> map_of (deployment_properties props) ''deploymentConfigName'' =
       Some (JsString (deploymentConfigName (deploymentConfig (deploymentGroup props))))
   \<and> map_of (deployment_properties props) ''deploymentGroupName'' =
       Some (JsString (deploymentGroupName (deploymentGroup props)))"
  by (simp add: deployment_properties_def card_insert_if)

text \<open>
  C4. For the deployment group with application \<^verbatim>\<open>app1\<close>, configuration
  \<^verbatim>\<open>cfg1\<close> and name \<^verbatim>\<open>grp1\<close>, the AppSpec content \<^verbatim>\<open>spec-content\<close>, no
  rollback configuration, no description and no timeout, the property bag is the one
  the specification lists, and it is the bag of the one resource that the
  construction registers.
\<close>

theorem property_bag_example:
  "deployment_properties props1 =
     [(''applicationName'', JsString ''app1''),
      (''deploymentConfigName'', JsString ''cfg1''),
      (''deploymentGroupName'', JsString ''grp1''),
      (''autoRollbackConfigurationEnabled'', JsString ''false''),
      (''autoRollbackConfigurationEvents'', JsString []),
      (''description'', JsUndefined),
      (''revisionAppSpecContent'', JsString ''spec-content'')]
   \<and> map (\<lambda>r. properties (resource_props r)) (resources (fst (forDeploymentGroup app0 props1))) =
     [[(''applicationName'', JsString ''app1''),
       (''deploymentConfigName'', JsString ''cfg1''),
       (''deploymentGroupName'', JsString ''grp1''),
       (''autoRollbackConfigurationEnabled'', JsString ''false''),
       (''autoRollbackConfigurationEvents'', JsString []),
       (''description'', JsUndefined),
       (''revisionAppSpecContent'', JsString ''spec-content'')]]"
proof -
  have b: "deployment_properties props1 =
     [(''applicationName'', JsString ''app1''),
      (''deploymentConfigName'', JsString ''cfg1''),
      (''deploymentGroupName'', JsString ''grp1''),
      (''autoRollbackConfigurationEnabled'', JsString ''false''),
      (''autoRollbackConfigurationEvents'', JsString []),
      (''description'', JsUndefined),
      (''revisionAppSpecContent'', JsString ''spec-content'')]"
    by (simp add: deployment_properties_def props1_def group1_def events_append
        optional_chain_def truthy_def boolean_toString_def)
  have "''Deployment'' \<notin> set (children app0 (node_path (deploymentGroup props1)))"
    by (simp add: app0_def)
  from forDeploymentGroup_fresh [OF this]
  have "map (\<lambda>r. properties (resource_props r)) (resources (fst (forDeploymentGroup app0 props1))) =
     [deployment_properties props1]"
    by (auto simp add: app0_def)
  with b show ?thesis by simp
qed

text \<open>
  C9. Two constructions whose configurations agree on the three names of the
  deployment group, the AppSpec string, the rollback configuration, the description
  and the timeout register the same property bag, in whatever trees and under
  whatever deployment-group constructs they run.
\<close>

theorem property_bag_deterministic:
  assumes "applicationName (application (deploymentGroup p1)) =
           applicationName (application (deploymentGroup p2))"
    and "deploymentConfigName (deploymentConfig (deploymentGroup p1)) =
         deploymentConfigName (deploymentConfig (deploymentGroup p2))"
    and "deploymentGroupName (deploymentGroup p1) = deploymentGroupName (deploymentGroup p2)"
    and "toString (appspec p1) = toString (appspec p2)"
    and "autoRollback p1 = autoRollback p2"
    and "description p1 = description p2"
    and "timeout p1 = timeout p2"
    and "''Deployment'' \<notin> set (children st1 (node_path (deploymentGroup p1)))"
    and "''Deployment'' \<notin> set (children st2 (node_path (deploymentGroup p2)))"
  shows "deployment_properties p1 = deployment_properties p2
         \<and> properties (resource_props (last (resources (fst (forDeploymentGroup st1 p1))))) =
           properties (resource_props (last (resources (fst (forDeploymentGroup st2 p2)))))"
proof -
  have "autoRollbackConfigurationEvents p1 = autoRollbackConfigurationEvents p2"
    using assms(5) by (simp add: autoRollbackConfigurationEvents_def)
  with assms(1-4,6) have eq: "deployment_properties p1 = deployment_properties p2"
    by (simp add: deployment_properties_def)
  from forDeploymentGroup_fresh [OF assms(8)]
  have a: "properties (resource_props (last (resources (fst (forDeploymentGroup st1 p1))))) =
      deployment_properties p1"
    by auto
  from forDeploymentGroup_fresh [OF assms(9)]
  have b: "properties (resource_props (last (resources (fst (forDeploymentGroup st2 p2))))) =
      deployment_properties p2"
    by auto
  from eq a b show ?thesis by simp
qed

text \<open>
  Two deployment groups at different places of the tree, with the same names; the
  second construction runs in the tree that the first one left.
\<close>

theorem property_bag_deterministic_witness:
  "node_path (deploymentGroup props1) \<noteq> node_path (deploymentGroup props_other_group)
   \<and> deployment_properties props1 = deployment_properties props_other_group
   \<and> properties (resource_props (last (resources (fst (forDeploymentGroup app0 props1))))) =
     properties (resource_props (last (resources
       (fst (forDeploymentGroup (fst (forDeploymentGroup app0 props1)) props_other_group)))))"
proof -
  have n1: "''Deployment'' \<notin> set (children app0 (node_path (deploymentGroup props1)))"
    by (simp add: app0_def)
  from forDeploymentGroup_fresh [OF n1] obtain st' where
    s: "forDeploymentGroup app0 props1 = (st', Inr \<lparr>deployment_path = node_path (deploymentGroup props1) @ [''Deployment''],
              deploymentId = GetAtt (node_path (deploymentGroup props1) @ [''Deployment'', ''DeploymentResource'']) ''deploymentId''\<rparr>)"
    by blast
  have n2: "''Deployment'' \<notin> set (children (fst (forDeploymentGroup app0 props1))
               (node_path (deploymentGroup props_other_group)))"
    by (simp add: forDeploymentGroup_def EcsDeployment_new_def EcsDeploymentProvider_new_def
        CustomResource_new_def Construct_new_def push_def Let_def app0_def props1_def group1_def
        props_other_group_def)
  have d: "node_path (deploymentGroup props1) \<noteq> node_path (deploymentGroup props_other_group)"
    by (simp add: props1_def group1_def props_other_group_def)
  from property_bag_deterministic [of props1 props_other_group app0
      "fst (forDeploymentGroup app0 props1)", OF _ _ _ _ _ _ _ n1 n2] d
  show ?thesis
    by (simp add: props1_def group1_def props_other_group_def)
qed

section \<open>The provider, the resource and the construct tree\<close>

text \<open>
  C5. Without a timeout the provider receives a duration of 30 minutes; a supplied
  timeout is what the provider receives, whatever its amount and unit; the property
  bag does not depend on the timeout; and the properties computed here are the ones
  that the provider created by the construction holds.
\<close>

theorem timeout_forwarded:
  "provider_timeout (deployment_provider_props (props\<lparr>timeout := None\<rparr>)) = Duration 30 Minutes
   \<and> provider_timeout (deployment_provider_props (props\<lparr>timeout := Some d\<rparr>)) = d
   \<and> deployment_properties (props\<lparr>timeout := t\<rparr>) = deployment_properties props
   \<and> (''Deployment'' \<notin> set (children st (node_path (deploymentGroup props))) \<longrightarrow>
        map provider_props (providers (fst (forDeploymentGroup st props))) =
          map provider_props (providers st) @ [deployment_provider_props props])"
proof -
  have "deployment_properties (props\<lparr>timeout := t\<rparr>) = deployment_properties props"
    by (simp add: deployment_properties_def autoRollbackConfigurationEvents_def)
  moreover have "map provider_props (providers (fst (forDeploymentGroup st props))) =
          map provider_props (providers st) @ [deployment_provider_props props]"
    if "''Deployment'' \<notin> set (children st (node_path (deploymentGroup props)))"
    using forDeploymentGroup_fresh [OF that] by auto
  ultimately show ?thesis
    by (simp add: deployment_provider_props_def object_or_def Duration_minutes_def)
qed

text \<open>
  The default, and a supplied duration of zero seconds: the object is truthy, so it
  is forwarded and not replaced by the default.
\<close>

theorem timeout_forwarded_witness:
  "provider_timeout (deployment_provider_props props1) = Duration 30 Minutes
   \<and> provider_timeout (deployment_provider_props zero_timeout_props) = Duration 0 Seconds
   \<and> ''Deployment'' \<notin> set (children app0 (node_path (deploymentGroup zero_timeout_props)))
   \<and> map provider_props (providers (fst (forDeploymentGroup app0 zero_timeout_props))) =
       [\<lparr>provider_deploymentGroup = group1, provider_timeout = Duration 0 Seconds\<rparr>]"
proof -
  have n: "''Deployment'' \<notin> set (children app0 (node_path (deploymentGroup zero_timeout_props)))"
    by (simp add: app0_def)
  have p: "props1\<lparr>timeout := None\<rparr> = props1"
    by (simp add: props1_def)
  from timeout_forwarded [of props1 "Duration 0 Seconds" None app0]
  have a: "provider_timeout (deployment_provider_props props1) = Duration 30 Minutes"
    and b: "provider_timeout (deployment_provider_props zero_timeout_props) = Duration 0 Seconds"
    by (simp_all add: p zero_timeout_props_def)
  from timeout_forwarded [of zero_timeout_props "Duration 0 Seconds" None app0] n
  have "map provider_props (providers (fst (forDeploymentGroup app0 zero_timeout_props))) =
          map provider_props (providers app0) @ [deployment_provider_props zero_timeout_props]"
    by blast
  moreover have "deployment_provider_props zero_timeout_props =
      \<lparr>provider_deploymentGroup = group1, provider_timeout = Duration 0 Seconds\<rparr>"
    by (simp add: deployment_provider_props_def zero_timeout_props_def props1_def object_or_def)
  ultimately show ?thesis using a b n
    by (simp add: app0_def)
qed

text \<open>
  C8. A construction under a deployment group that has no child \<^verbatim>\<open>Deployment\<close>
  yet succeeds, creates one provider and registers one custom resource, both as
  children of the new construct. The resource has the type
  \<^verbatim>\<open>Custom::EcsDeployment\<close>, the service token of that provider and the property
  bag of the configuration; the \<^verbatim>\<open>deploymentId\<close> of the construct is the
  \<^verbatim>\<open>deploymentId\<close> attribute of that resource.
\<close>

theorem registers_one_custom_resource:
  assumes "''Deployment'' \<notin> set (children st (node_path (deploymentGroup props)))"
  shows "\<exists>st' d pv cr.
           forDeploymentGroup st props = (st', Inr d)
         \<and> providers st' = providers st @ [pv]
         \<and> resources st' = resources st @ [cr]
         \<and> provider_path pv = deployment_path d @ [''DeploymentProvider'']
         \<and> resource_path cr = deployment_path d @ [''DeploymentResource'']
         \<and> resourceType (resource_props cr) = ''Custom::EcsDeployment''
         \<and> resource_serviceToken (resource_props cr) = serviceToken pv
         \<and> properties (resource_props cr) = deployment_properties props
         \<and> deploymentId d = getAttString cr ''deploymentId''"
proof -
  from forDeploymentGroup_fresh [OF assms] obtain st' where
    "forDeploymentGroup st props =
     (st', Inr \<lparr>deployment_path = node_path (deploymentGroup props) @ [''Deployment''],
              deploymentId = GetAtt (node_path (deploymentGroup props) @ [''Deployment'', ''DeploymentResource'']) ''deploymentId''\<rparr>)"
    and "providers st' = providers st @
        [\<lparr>provider_path = node_path (deploymentGroup props) @ [''Deployment'', ''DeploymentProvider''],
          provider_props = deployment_provider_props props,
          serviceToken = ServiceTokenOf (node_path (deploymentGroup props) @ [''Deployment'', ''DeploymentProvider''])\<rparr>]"
    and "resources st' = resources st @
        [\<lparr>resource_path = node_path (deploymentGroup props) @ [''Deployment'', ''DeploymentResource''],
          resource_props = \<lparr>resource_serviceToken = ServiceTokenOf (node_path (deploymentGroup props) @ [''Deployment'', ''DeploymentProvider'']),
             resourceType = ''Custom::EcsDeployment'',
             properties = deployment_properties props\<rparr>\<rparr>]"
    by blast
  then show ?thesis
    by (simp add: getAttString_def)
qed

theorem registers_one_custom_resource_witness:
  "''Deployment'' \<notin> set (children app0 (node_path (deploymentGroup props1)))
   \<and> length (resources (fst (forDeploymentGroup app0 props1))) = 1
   \<and> map (\<lambda>r. resourceType (resource_props r)) (resources (fst (forDeploymentGroup app0 props1))) =
       [''Custom::EcsDeployment'']"
proof -
  have n: "''Deployment'' \<notin> set (children app0 (node_path (deploymentGroup props1)))"
    by (simp add: app0_def)
  from registers_one_custom_resource [OF n] obtain st' d cr where
    "forDeploymentGroup app0 props1 = (st', Inr d)"
    and "resources st' = resources app0 @ [cr]"
    and "resourceType (resource_props cr) = ''Custom::EcsDeployment''"
    by blast
  with n show ?thesis
    by (simp add: app0_def)
qed

text \<open>
  C7. After a construction for a deployment group, a second construction for the
  same group ends in the duplicate-name error for the child \<^verbatim>\<open>Deployment\<close> of that
  group. The tree, the providers and the resources are left as they were: the error
  comes before the provider is created.
\<close>

theorem second_deployment_collides:
  assumes "node_path (deploymentGroup p2) = node_path (deploymentGroup p1)"
    and "forDeploymentGroup st p1 = (st1, r1)"
  shows "forDeploymentGroup st1 p2 =
           (st1, Inl (DuplicateConstructName (node_path (deploymentGroup p1)) ''Deployment''))
         \<and> providers (fst (forDeploymentGroup st1 p2)) = providers st1
         \<and> resources (fst (forDeploymentGroup st1 p2)) = resources st1"
proof -
  from forDeploymentGroup_child [of st p1] assms
  have "''Deployment'' \<in> set (children st1 (node_path (deploymentGroup p2)))"
    by simp
  from forDeploymentGroup_duplicate [OF this] assms(1) show ?thesis
    by simp
qed

text \<open>
  On a tree without children the first construction succeeds and creates one
  provider; the second one fails and the provider count stays at one.
\<close>

theorem second_deployment_collides_witness:
  "snd (forDeploymentGroup app0 props1) =
     Inr \<lparr>deployment_path = [''Stack'', ''Group'', ''Deployment''],
          deploymentId = GetAtt [''Stack'', ''Group'', ''Deployment'', ''DeploymentResource'']
                           ''deploymentId''\<rparr>
   \<and> snd (forDeploymentGroup (fst (forDeploymentGroup app0 props1)) props_described) =
       Inl (DuplicateConstructName [''Stack'', ''Group''] ''Deployment'')
   \<and> length (providers (fst (forDeploymentGroup app0 props1))) = 1
   \<and> length (providers (fst (forDeploymentGroup (fst (forDeploymentGroup app0 props1))
        props_described))) = 1"
proof -
  have n: "''Deployment'' \<notin> set (children app0 (node_path (deploymentGroup props1)))"
    by (simp add: app0_def)
  from forDeploymentGroup_fresh [OF n]
  have first: "snd (forDeploymentGroup app0 props1) =
     Inr \<lparr>deployment_path = [''Stack'', ''Group'', ''Deployment''],
          deploymentId = GetAtt [''Stack'', ''Group'', ''Deployment'', ''DeploymentResource'']
                           ''deploymentId''\<rparr>"
    and one: "length (providers (fst (forDeploymentGroup app0 props1))) = 1"
    by (auto simp add: props1_def group1_def app0_def)
  have g: "node_path (deploymentGroup props_described) = node_path (deploymentGroup props1)"
    by (simp add: props_described_def)
  have "forDeploymentGroup app0 props1 =
      (fst (forDeploymentGroup app0 props1), snd (forDeploymentGroup app0 props1))"
    by simp
  from second_deployment_collides [OF g this] first one show ?thesis
    by (simp add: props1_def group1_def)
qed

end
